theory Spec2Isabelle
  imports Main
begin

section \<open>Errors and the global error handler\<close>

text \<open>
  The errors that travel through the product routes. A \<open>CustomError\<close> carries the two
  properties its constructor sets (\<open>customMessage\<close>, \<open>statusCode\<close>); the other errors
  are thrown by the runtime or by the database layer and carry neither. A
  \<open>ValidationError\<close> names the paths that failed, a \<open>CastError\<close> the value that could
  not be cast.
\<close>

datatype error =
    CustomError string nat
  | ValidationError "string set"
  | CastError string
  | DuplicateKeyError nat
  | ReferenceError string

text \<open>\<open>constructor(message = "Internal Server Error", statusCode = 500)\<close>: an omitted
  argument (\<open>None\<close>) takes its default.\<close>

definition new_CustomError :: "string option \<Rightarrow> nat option \<Rightarrow> error" where
  "new_CustomError message statusCode =
     CustomError (case message of None \<Rightarrow> ''Internal Server Error'' | Some m \<Rightarrow> m)
                 (case statusCode of None \<Rightarrow> 500 | Some c \<Rightarrow> c)"

fun err_statusCode :: "error \<Rightarrow> nat option" where
  "err_statusCode (CustomError m c) = Some c"
| "err_statusCode _ = None"

fun err_customMessage :: "error \<Rightarrow> string option" where
  "err_customMessage (CustomError m c) = Some m"
| "err_customMessage _ = None"

text \<open>The first decimal digit of a number: what \<open>`${err.statusCode}`.startsWith('4')\<close>
  inspects.\<close>

fun leading_digit :: "nat \<Rightarrow> nat" where
  "leading_digit n = (if n < 10 then n else leading_digit (n div 10))"

declare leading_digit.simps [simp del]

record error_response =
  res_code :: nat
  res_status :: string
  res_message :: string

text \<open>\<open>globalErrorHandler\<close>: \<open>x || d\<close> takes \<open>d\<close> when \<open>x\<close> is undefined, \<open>0\<close> or the
  empty string. The \<open>stack\<close> field depends on the process environment and is left out.\<close>

definition globalErrorHandler :: "error \<Rightarrow> error_response" where
  "globalErrorHandler err =
     (let statusCode = (case err_statusCode err of
                          None \<Rightarrow> 500
                        | Some c \<Rightarrow> if c = 0 then 500 else c)
      in \<lparr> res_code = statusCode,
           res_status = (if leading_digit statusCode = 4 then ''fail'' else ''error''),
           res_message = (case err_customMessage err of
                            None \<Rightarrow> ''Something went wrong, try again later''
                          | Some m \<Rightarrow> if m = [] then ''Something went wrong, try again later''
                                      else m) \<rparr>)"

section \<open>The product schema\<close>

text \<open>An \<open>ObjectId\<close> is a 12-byte value, modelled as a number. A request carries an id
  as a string, which the database library casts to an \<open>ObjectId\<close> or refuses with a
  \<open>CastError\<close>. Which strings the library accepts is the library's matter: the cast is a
  parameter \<open>castObjectId\<close> of every operation that receives an id string, \<open>None\<close>
  standing for a refused string.\<close>

type_synonym objectId = nat

type_synonym cast = "string \<Rightarrow> objectId option"

record attributes =
  brand :: "string option"
  color :: "string option"
  material :: "string option"
  targetAudience :: "string option"
  estimatedPriceINR :: "int option"

record media =
  mainImageUrl :: "string option"
  alternateImageUrls :: "string list"

text \<open>A stored product document. \<open>oid\<close> is the document's \<open>_id\<close>. On an optional path
  \<open>None\<close> says that the document holds no value there (the path is unset or null).
  \<open>createdAt\<close> and \<open>updatedAt\<close> are the two timestamps the schema option
  \<open>timestamps: true\<close> adds, as numbers.\<close>

record product =
  oid :: objectId
  user :: objectId
  s3FileKey :: string
  cdnUrl :: string
  title :: "string option"
  description :: "string option"
  bulletPoints :: "string list option"
  searchTerms :: "string list option"
  suggestedCategory :: "string option"
  attributes :: attributes
  media :: media
  processingStatus :: "string option"
  jobId :: string
  errorMessage :: "string option"
  createdAt :: nat
  updatedAt :: nat

text \<open>A path of a request body is absent, explicitly null, or given a value.\<close>

datatype 'a supplied = Absent | Null | Given 'a

text \<open>The data a caller supplies (a request body), its values of the schema's types.
  The two nested objects are absent or given.\<close>

record product_data =
  in_user :: "string supplied"
  in_s3FileKey :: "string supplied"
  in_cdnUrl :: "string supplied"
  in_title :: "string supplied"
  in_description :: "string supplied"
  in_bulletPoints :: "string list supplied"
  in_searchTerms :: "string list supplied"
  in_suggestedCategory :: "string supplied"
  in_attributes :: "attributes option"
  in_media :: "media option"
  in_processingStatus :: "string supplied"
  in_jobId :: "string supplied"
  in_errorMessage :: "string supplied"

definition processingStatus_enum :: "string list" where
  "processingStatus_enum = [''pending'', ''queued'', ''processing'', ''completed'', ''failed'']"

definition processingStatus_default :: string where
  "processingStatus_default = ''pending''"

definition no_attributes :: attributes where
  "no_attributes = \<lparr> brand = None, color = None, material = None, targetAudience = None,
                      estimatedPriceINR = None \<rparr>"

definition no_media :: media where
  "no_media = \<lparr> mainImageUrl = None, alternateImageUrls = [] \<rparr>"

text \<open>The schema's validators, run when a document is saved. \<open>required\<close> rejects an
  absent or null path and, on a string path, the empty string; the \<open>user\<close> path must
  also cast to an \<open>ObjectId\<close>. \<open>enum\<close> is checked on a given value only: an absent status
  takes the default, a null status stays null, and neither is checked. Only \<open>user\<close>,
  \<open>s3FileKey\<close>, \<open>cdnUrl\<close> and \<open>jobId\<close> are declared \<open>required\<close>.\<close>

definition required_string_missing :: "string supplied \<Rightarrow> bool" where
  "required_string_missing v = (case v of Given s \<Rightarrow> s = [] | _ \<Rightarrow> True)"

definition user_invalid :: "cast \<Rightarrow> string supplied \<Rightarrow> bool" where
  "user_invalid castObjectId v = (case v of Given s \<Rightarrow> castObjectId s = None | _ \<Rightarrow> True)"

definition status_invalid :: "string supplied \<Rightarrow> bool" where
  "status_invalid v = (case v of Given s \<Rightarrow> s \<notin> set processingStatus_enum | _ \<Rightarrow> False)"

definition validation_errors :: "cast \<Rightarrow> product_data \<Rightarrow> string set" where
  "validation_errors castObjectId pd =
     (if user_invalid castObjectId (in_user pd) then {''user''} else {}) \<union>
     (if required_string_missing (in_s3FileKey pd) then {''s3FileKey''} else {}) \<union>
     (if required_string_missing (in_cdnUrl pd) then {''cdnUrl''} else {}) \<union>
     (if status_invalid (in_processingStatus pd) then {''processingStatus''} else {}) \<union>
     (if required_string_missing (in_jobId pd) then {''jobId''} else {})"

text \<open>What a path of the document holds for what was supplied.\<close>

definition optional_value :: "'a supplied \<Rightarrow> 'a option" where
  "optional_value v = (case v of Given x \<Rightarrow> Some x | _ \<Rightarrow> None)"

definition list_value :: "'a list supplied \<Rightarrow> 'a list option" where
  "list_value v = (case v of Absent \<Rightarrow> Some [] | Null \<Rightarrow> None | Given xs \<Rightarrow> Some xs)"

definition status_of_data :: "product_data \<Rightarrow> string option" where
  "status_of_data pd =
     (case in_processingStatus pd of
        Absent \<Rightarrow> Some processingStatus_default
      | Null \<Rightarrow> None
      | Given s \<Rightarrow> Some s)"

text \<open>\<open>new Product(productData)\<close>: the document built from the supplied data, with the
  schema defaults for the absent paths. The generated \<open>_id\<close> and the time of the save
  are explicit arguments. A document whose required path is missing never reaches the
  collection (the save below rejects it), so the value written here for that case is
  never observed.\<close>

definition new_Product :: "cast \<Rightarrow> nat \<Rightarrow> objectId \<Rightarrow> product_data \<Rightarrow> product" where
  "new_Product castObjectId now i pd =
     \<lparr> oid = i,
       user = (case in_user pd of
                 Given s \<Rightarrow> (case castObjectId s of Some u \<Rightarrow> u | None \<Rightarrow> 0)
               | _ \<Rightarrow> 0),
       s3FileKey = (case in_s3FileKey pd of Given s \<Rightarrow> s | _ \<Rightarrow> []),
       cdnUrl = (case in_cdnUrl pd of Given s \<Rightarrow> s | _ \<Rightarrow> []),
       title = optional_value (in_title pd),
       description = optional_value (in_description pd),
       bulletPoints = list_value (in_bulletPoints pd),
       searchTerms = list_value (in_searchTerms pd),
       suggestedCategory = optional_value (in_suggestedCategory pd),
       attributes = (case in_attributes pd of None \<Rightarrow> no_attributes | Some a \<Rightarrow> a),
       media = (case in_media pd of None \<Rightarrow> no_media | Some m \<Rightarrow> m),
       processingStatus = status_of_data pd,
       jobId = (case in_jobId pd of Given s \<Rightarrow> s | _ \<Rightarrow> []),
       errorMessage = optional_value (in_errorMessage pd),
       createdAt = now,
       updatedAt = now \<rparr>"

section \<open>The collection\<close>

text \<open>The collection is the list of its documents in insertion order, together with
  whether the connection's writes are acknowledged. An unacknowledged write is still
  sent to the database, but its result carries no counts (\<open>None\<close>).\<close>

record db =
  docs :: "product list"
  acks :: bool

record update_result =
  matchedCount :: "nat option"
  acknowledged :: bool

definition Product_findById :: "cast \<Rightarrow> db \<Rightarrow> string \<Rightarrow> error + product option" where
  "Product_findById castObjectId d id' =
     (case castObjectId id' of
        None \<Rightarrow> Inl (CastError id')
      | Some i \<Rightarrow> Inr (find (\<lambda>p. oid p = i) (docs d)))"



fun update_first :: "('a \<Rightarrow> bool) \<Rightarrow> ('a \<Rightarrow> 'a) \<Rightarrow> 'a list \<Rightarrow> 'a list" where
  "update_first P f [] = []"
| "update_first P f (x # xs) = (if P x then f x # xs else x # update_first P f xs)"

fun remove_first :: "('a \<Rightarrow> bool) \<Rightarrow> 'a list \<Rightarrow> 'a list" where
  "remove_first P [] = []"
| "remove_first P (x # xs) = (if P x then xs else x # remove_first P xs)"

text \<open>\<open>Product.updateOne({_id: id}, {$set: ...})\<close>: the filter's id is cast; the first
  document with that id takes the change and, by \<open>timestamps: true\<close>, the time of the
  write as its \<open>updatedAt\<close>.\<close>

definition Product_updateOne ::
    "cast \<Rightarrow> nat \<Rightarrow> db \<Rightarrow> string \<Rightarrow> (product \<Rightarrow> product) \<Rightarrow> error + update_result \<times> db" where
  "Product_updateOne castObjectId now d id' f =
     (case castObjectId id' of
        None \<Rightarrow> Inl (CastError id')
      | Some i \<Rightarrow>
          Inr (\<lparr> matchedCount =
                   (if acks d
                      then Some (if find (\<lambda>p. oid p = i) (docs d) = None then 0 else 1)
                    else None),
                 acknowledged = acks d \<rparr>,
               d\<lparr> docs := update_first (\<lambda>p. oid p = i) (\<lambda>p. (f p)\<lparr> updatedAt := now \<rparr>)
                              (docs d) \<rparr>))"

definition Product_deleteOne :: "cast \<Rightarrow> db \<Rightarrow> string \<Rightarrow> error + nat option \<times> db" where
  "Product_deleteOne castObjectId d id' =
     (case castObjectId id' of
        None \<Rightarrow> Inl (CastError id')
      | Some i \<Rightarrow>
          Inr (if acks d then Some (if find (\<lambda>p. oid p = i) (docs d) = None then 0 else 1)
               else None,
               d\<lparr> docs := remove_first (\<lambda>p. oid p = i) (docs d) \<rparr>))"

text \<open>\<open>product.save()\<close> of a new document: validation, then the insert, which the
  unique index on \<open>_id\<close> refuses for an id already present.\<close>

definition Product_save ::
    "cast \<Rightarrow> nat \<Rightarrow> db \<Rightarrow> objectId \<Rightarrow> product_data \<Rightarrow> error + (product \<times> db)" where
  "Product_save castObjectId now d i pd =
     (if validation_errors castObjectId pd \<noteq> {}
        then Inl (ValidationError (validation_errors castObjectId pd))
      else if find (\<lambda>p. oid p = i) (docs d) \<noteq> None then Inl (DuplicateKeyError i)
      else Inr (new_Product castObjectId now i pd,
                d\<lparr> docs := docs d @ [new_Product castObjectId now i pd] \<rparr>))"

section \<open>ProductService\<close>

text \<open>JavaScript truthiness of an optional string: absent and empty are falsy.\<close>

definition truthy :: "string option \<Rightarrow> bool" where
  "truthy v = (case v of None \<Rightarrow> False | Some s \<Rightarrow> s \<noteq> [])"

definition getProductById :: "cast \<Rightarrow> db \<Rightarrow> string \<Rightarrow> error + product" where
  "getProductById castObjectId d id' =
     (case Product_findById castObjectId d id' of
        Inl err \<Rightarrow> Inl err
      | Inr None \<Rightarrow> Inl (new_CustomError (Some ''Product not found'') (Some 404))
      | Inr (Some p) \<Rightarrow> Inr p)"

record products_page =
  products :: "product list"
  isMore :: bool
  totalProductCnt :: nat


definition createProduct ::
    "cast \<Rightarrow> nat \<Rightarrow> db \<Rightarrow> objectId \<Rightarrow> product_data option \<Rightarrow> error + (product \<times> db)" where
  "createProduct castObjectId now d fresh productData =
     (case productData of
        None \<Rightarrow> Inl (new_CustomError (Some ''Product data is required'') (Some 400))
      | Some pd \<Rightarrow> Product_save castObjectId now d fresh pd)"

text \<open>An update returns nothing; what a caller observes is the error it throws, if
  any (\<open>None\<close> for a normal return), and the collection afterwards. In the source's
  order: the argument check, the write, then the two checks on the write's result.
  \<open>update.matchedCount === 0\<close> is false of a result without counts.\<close>

definition updateProcessingStatus ::
    "cast \<Rightarrow> nat \<Rightarrow> db \<Rightarrow> string \<Rightarrow> string option \<Rightarrow> error option \<times> db" where
  "updateProcessingStatus castObjectId now d id' currentStatus =
     (if \<not> truthy currentStatus
        then (Some (new_CustomError (Some ''Id and status are required'') (Some 400)), d)
      else
        case Product_updateOne castObjectId now d id'
               (\<lambda>p. p\<lparr> processingStatus := currentStatus \<rparr>) of
          Inl err \<Rightarrow> (Some err, d)
        | Inr (update, d') \<Rightarrow>
            if matchedCount update = Some 0
              then (Some (new_CustomError (Some ''Product not found'') (Some 404)), d')
            else if \<not> acknowledged update
              then (Some (new_CustomError (Some ''Update failed, try again later'') (Some 500)), d')
            else (None, d'))"

text \<open>\<open>delProduct.deletedCount == 0\<close> is likewise false of a result without counts.\<close>

definition deleteProduct :: "cast \<Rightarrow> db \<Rightarrow> string \<Rightarrow> error option \<times> db" where
  "deleteProduct castObjectId d id' =
     (case Product_deleteOne castObjectId d id' of
        Inl err \<Rightarrow> (Some err, d)
      | Inr (deletedCount, d') \<Rightarrow>
          if deletedCount = Some 0
            then (Some (new_CustomError (Some ''Product not found'') (Some 404)), d')
          else (None, d'))"

section \<open>ProductController\<close>

text \<open>A handler either sends a response (status code, \<open>status\<close>, \<open>data\<close>, the
  message text) or hands an error to \<open>next\<close>.\<close>

datatype payload = NoData | ProductData product | PageData products_page

datatype outcome =
    Responded nat string payload string
  | NextCalled error

text \<open>The handlers reach the service through \<open>this.productService\<close>, the
  \<open>ProductService\<close> the router constructs the controller with.\<close>

definition getProduct :: "cast \<Rightarrow> db \<Rightarrow> string \<Rightarrow> outcome" where
  "getProduct castObjectId d id' =
     (case getProductById castObjectId d id' of
        Inr p \<Rightarrow> Responded 200 ''success'' (ProductData p) ''Product fetched successfully''
      | Inl err \<Rightarrow> NextCalled err)"

definition updateStatus ::
    "cast \<Rightarrow> nat \<Rightarrow> db \<Rightarrow> string \<Rightarrow> string option \<Rightarrow> outcome \<times> db" where
  "updateStatus castObjectId now d id' currentStatus =
     (case updateProcessingStatus castObjectId now d id' currentStatus of
        (None, d') \<Rightarrow> (Responded 200 ''success'' NoData ''Processing status updated'', d')
      | (Some err, d') \<Rightarrow> (NextCalled err, d'))"

text \<open>The identifiers a handler body can see: its own \<open>const\<close>, its parameters, and the
  one declaration of the controller's module. The module imports nothing.\<close>

datatype js_value = IdParam string | RequestObj | ResponseObj | NextFn | ControllerClass
  | ServiceObj

definition handler_scope :: "string \<Rightarrow> (string \<times> js_value) list" where
  "handler_scope id' =
     [(''id'', IdParam id'), (''req'', RequestObj), (''res'', ResponseObj), (''next'', NextFn),
      (''ProductController'', ControllerClass)]"

text \<open>\<open>deleteProduct\<close> of the controller: the receiver of the call is the bare identifier
  \<open>productService\<close>, resolved in the handler's scope; an unresolved identifier throws
  inside the \<open>try\<close>, and the \<open>catch\<close> passes the error on.\<close>

datatype call_trace = ServiceNotCalled | ServiceCalled

definition deleteProduct_handler :: "cast \<Rightarrow> db \<Rightarrow> string \<Rightarrow> outcome \<times> call_trace \<times> db" where
  "deleteProduct_handler castObjectId d id' =
     (case map_of (handler_scope id') ''productService'' of
        None \<Rightarrow> (NextCalled (ReferenceError ''productService is not defined''), ServiceNotCalled, d)
      | Some ServiceObj \<Rightarrow>
          (case deleteProduct castObjectId d id' of
             (None, d') \<Rightarrow>
               (Responded 200 ''success'' NoData ''Product deleted successfully'', ServiceCalled, d')
           | (Some err, d') \<Rightarrow> (NextCalled err, ServiceCalled, d'))
      | Some _ \<Rightarrow>
          (NextCalled (ReferenceError ''productService.deleteProduct is not a function''),
           ServiceNotCalled, d))"

section \<open>Sample data\<close>

text \<open>A cast to instantiate the parameter with: a string of 24 hexadecimal digits is
  the \<open>ObjectId\<close> it denotes, and every other string is refused. (Some versions of the
  library also accept strings of 12 characters; no statement below looks at one.)\<close>

definition hex_digit :: "char \<Rightarrow> nat option" where
  "hex_digit c =
     map_of
       [(CHR ''0'', 0), (CHR ''1'', 1), (CHR ''2'', 2), (CHR ''3'', 3),
        (CHR ''4'', 4), (CHR ''5'', 5), (CHR ''6'', 6), (CHR ''7'', 7),
        (CHR ''8'', 8), (CHR ''9'', 9), (CHR ''a'', 10), (CHR ''b'', 11),
        (CHR ''c'', 12), (CHR ''d'', 13), (CHR ''e'', 14), (CHR ''f'', 15),
        (CHR ''A'', 10), (CHR ''B'', 11), (CHR ''C'', 12), (CHR ''D'', 13),
        (CHR ''E'', 14), (CHR ''F'', 15)]
       c"

fun hex_number :: "string \<Rightarrow> nat \<Rightarrow> nat option" where
  "hex_number [] acc = Some acc"
| "hex_number (c # cs) acc =
     (case hex_digit c of None \<Rightarrow> None | Some v \<Rightarrow> hex_number cs (16 * acc + v))"

definition hex_objectId :: cast where
  "hex_objectId s = (if length s = 24 then hex_number s 0 else None)"

definition id_1 :: string where
  "id_1 = ''000000000000000000000001''"

definition id_2 :: string where
  "id_2 = ''000000000000000000000002''"

definition id_7 :: string where
  "id_7 = ''000000000000000000000007''"

definition listed_product :: product where
  "listed_product =
     \<lparr> oid = 1, user = 7, s3FileKey = ''videos/v1.mp4'', cdnUrl = ''cdn/v1.mp4'',
       title = Some ''Steel bottle'', description = Some ''Keeps water cold'',
       bulletPoints = Some [''Insulated''], searchTerms = Some [''bottle''],
       suggestedCategory = None, attributes = no_attributes, media = no_media,
       processingStatus = Some ''completed'', jobId = ''j1'', errorMessage = None,
       createdAt = 10, updatedAt = 20 \<rparr>"

definition minimal_product :: product where
  "minimal_product =
     \<lparr> oid = 1, user = 7, s3FileKey = ''videos/v1.mp4'', cdnUrl = ''cdn/v1.mp4'',
       title = None, description = None, bulletPoints = Some [], searchTerms = Some [],
       suggestedCategory = None, attributes = no_attributes, media = no_media,
       processingStatus = Some ''pending'', jobId = ''j1'', errorMessage = None,
       createdAt = 30, updatedAt = 30 \<rparr>"

definition minimal_data :: product_data where
  "minimal_data =
     \<lparr> in_user = Given id_7, in_s3FileKey = Given ''videos/v1.mp4'',
       in_cdnUrl = Given ''cdn/v1.mp4'', in_title = Absent, in_description = Absent,
       in_bulletPoints = Absent, in_searchTerms = Absent, in_suggestedCategory = Absent,
       in_attributes = None, in_media = None, in_processingStatus = Absent,
       in_jobId = Given ''j1'', in_errorMessage = Absent \<rparr>"

definition empty_db :: db where
  "empty_db = \<lparr> docs = [], acks = True \<rparr>"

definition one_db :: db where
  "one_db = \<lparr> docs = [listed_product], acks = True \<rparr>"


section \<open>Facts about the collection\<close>

lemma hex_objectId_samples:
  "hex_objectId id_1 = Some 1" "hex_objectId id_2 = Some 2" "hex_objectId id_7 = Some 7"
  "hex_objectId ''abc'' = None"
  by (simp_all add: hex_objectId_def id_1_def id_2_def id_7_def hex_digit_def)

lemma find_oid_None: "(find (\<lambda>p. oid p = i) xs = None) = (i \<notin> oid ` set xs)"
  by (induction xs) auto

lemma find_oid_Some: "find (\<lambda>p. oid p = i) xs = Some p \<Longrightarrow> p \<in> set xs \<and> oid p = i"
  by (induction xs) (auto split: if_splits)

lemma find_update_first_same:
  "(\<And>p. oid (f p) = oid p) \<Longrightarrow>
   find (\<lambda>p. oid p = i) (update_first (\<lambda>p. oid p = i) f xs)
     = map_option f (find (\<lambda>p. oid p = i) xs)"
  by (induction xs) auto

lemma find_update_first_other:
  "(\<And>p. oid (f p) = oid p) \<Longrightarrow> j \<noteq> i \<Longrightarrow>
   find (\<lambda>p. oid p = j) (update_first (\<lambda>p. oid p = i) f xs) = find (\<lambda>p. oid p = j) xs"
  by (induction xs) auto


lemma find_append_fresh:
  "i \<notin> oid ` set xs \<Longrightarrow> oid p = i \<Longrightarrow> find (\<lambda>q. oid q = i) (xs @ [p]) = Some p"
  by (induction xs) auto


lemma updateProcessingStatus_result:
  "castObjectId id' = Some i \<Longrightarrow>
   updateProcessingStatus castObjectId now d id' s =
     (if \<not> truthy s then (Some (CustomError ''Id and status are required'' 400), d)
      else (if \<not> acks d then Some (CustomError ''Update failed, try again later'' 500)
            else if i \<notin> oid ` set (docs d) then Some (CustomError ''Product not found'' 404)
            else None,
            d\<lparr> docs := update_first (\<lambda>p. oid p = i)
                         (\<lambda>p. p\<lparr> processingStatus := s, updatedAt := now \<rparr>) (docs d) \<rparr>))"
  by (simp add: updateProcessingStatus_def Product_updateOne_def new_CustomError_def
      find_oid_None)


lemma validation_errors_empty:
  "validation_errors castObjectId pd = {} \<longleftrightarrow>
     (\<exists>s u. in_user pd = Given s \<and> castObjectId s = Some u)
     \<and> \<not> required_string_missing (in_s3FileKey pd)
     \<and> \<not> required_string_missing (in_cdnUrl pd)
     \<and> \<not> required_string_missing (in_jobId pd)
     \<and> (\<forall>s. in_processingStatus pd = Given s \<longrightarrow> s \<in> set processingStatus_enum)"
  by (auto simp: validation_errors_def user_invalid_def status_invalid_def
      split: if_splits supplied.splits)

lemma createProduct_succeeds_iff:
  "(\<exists>r. createProduct castObjectId now d i (Some pd) = Inr r) \<longleftrightarrow>
     validation_errors castObjectId pd = {} \<and> i \<notin> oid ` set (docs d)"
  by (auto simp: createProduct_def Product_save_def find_oid_None split: if_splits)

lemma createProduct_Inr:
  "createProduct castObjectId now d i (Some pd) = Inr (p, d') \<Longrightarrow>
     p = new_Product castObjectId now i pd \<and> d' = d\<lparr> docs := docs d @ [p] \<rparr>
     \<and> i \<notin> oid ` set (docs d) \<and> validation_errors castObjectId pd = {}"
  by (auto simp: createProduct_def Product_save_def find_oid_None split: if_splits)

lemma minimal_data_valid: "validation_errors hex_objectId minimal_data = {}"
  by (simp add: validation_errors_def user_invalid_def status_invalid_def
      required_string_missing_def minimal_data_def hex_objectId_samples)

lemma createProduct_minimal:
  "createProduct hex_objectId 30 empty_db 1 (Some minimal_data)
     = Inr (minimal_product, \<lparr> docs = [minimal_product], acks = True \<rparr>)"
  by (simp add: createProduct_def Product_save_def minimal_data_valid empty_db_def)
     (simp add: new_Product_def minimal_data_def minimal_product_def hex_objectId_samples
        optional_value_def list_value_def status_of_data_def processingStatus_default_def)

lemma findById_one_db: "Product_findById hex_objectId one_db id_1 = Inr (Some listed_product)"
  by (simp add: Product_findById_def hex_objectId_samples one_db_def listed_product_def)

lemmas updateProcessingStatus_id_1 =
  updateProcessingStatus_result
    [where castObjectId = hex_objectId and id' = id_1 and i = 1, OF hex_objectId_samples(1)]

section \<open>The status update\<close>

text \<open>
  Claim C1, as amended. \<open>updateProcessingStatus\<close> overwrites the status unconditionally:
  for a record that is present, a non-empty status and an acknowledged write, it returns
  normally and the record then carries the new status, whatever status it had before
  (a terminal one included), and the time of the write as its \<open>updatedAt\<close>; its other
  fields are as they were, and every id that casts to another \<open>ObjectId\<close> is looked up
  with the result it had before.
\<close>

theorem updateProcessingStatus_overwrites:
  assumes "st \<noteq> []" and "Product_findById castObjectId d id' = Inr (Some p)" and "acks d"
  shows "\<exists>d'. updateProcessingStatus castObjectId now d id' (Some st) = (None, d')
           \<and> Product_findById castObjectId d' id'
               = Inr (Some (p\<lparr> processingStatus := Some st, updatedAt := now \<rparr>))
           \<and> (\<forall>j. castObjectId j \<noteq> castObjectId id' \<longrightarrow>
                  Product_findById castObjectId d' j = Product_findById castObjectId d j)"
proof -
  from assms(2) obtain i where i: "castObjectId id' = Some i"
    and p: "find (\<lambda>p. oid p = i) (docs d) = Some p"
    by (auto simp: Product_findById_def split: option.splits)
  from p have "i \<in> oid ` set (docs d)"
    by (auto dest: find_oid_Some)
  with assms(1,3) i p show ?thesis
    by (auto simp: updateProcessingStatus_result truthy_def Product_findById_def
        find_update_first_same find_update_first_other split: option.splits)
qed

theorem updateProcessingStatus_overwrites_witness:
  "''processing'' \<noteq> [] \<and> Product_findById hex_objectId one_db id_1 = Inr (Some listed_product)
   \<and> acks one_db \<and> processingStatus listed_product = Some ''completed''
   \<and> (\<exists>d'. updateProcessingStatus hex_objectId 50 one_db id_1 (Some ''processing'') = (None, d')
           \<and> Product_findById hex_objectId d' id_1
               = Inr (Some (listed_product\<lparr> processingStatus := Some ''processing'',
                                             updatedAt := 50 \<rparr>))
           \<and> (\<forall>j. hex_objectId j \<noteq> hex_objectId id_1 \<longrightarrow>
                  Product_findById hex_objectId d' j = Product_findById hex_objectId one_db j))"
proof -
  have a: "''processing'' \<noteq> []" by simp
  have c: "acks one_db" by (simp add: one_db_def)
  have e: "processingStatus listed_product = Some ''completed''"
    by (simp add: listed_product_def)
  show ?thesis
    using updateProcessingStatus_overwrites [OF a findById_one_db c, of 50] a c e
      findById_one_db
    by blast
qed

text \<open>
  Claim C1 as stated fails: a record whose status is \<open>completed\<close> is set back to
  \<open>processing\<close> by a status update.
\<close>

theorem terminal_status_overwritten_counterexample:
  "getProductById hex_objectId one_db id_1 = Inr listed_product
   \<and> processingStatus listed_product = Some ''completed''
   \<and> updateProcessingStatus hex_objectId 50 one_db id_1 (Some ''processing'')
       = (None, \<lparr> docs = [listed_product\<lparr> processingStatus := Some ''processing'',
                                            updatedAt := 50 \<rparr>],
                  acks = True \<rparr>)
   \<and> processingStatus (listed_product\<lparr> processingStatus := Some ''processing'', updatedAt := 50 \<rparr>)
       \<noteq> Some ''completed''"
  by (simp add: getProductById_def findById_one_db
      updateProcessingStatus_id_1 truthy_def)
     (simp add: one_db_def listed_product_def)




text \<open>
  Claim C7, as amended. \<open>updateProcessingStatus\<close> reports its failures by throwing to its
  caller. When the status is absent or empty it throws a \<open>CustomError\<close> with status code
  400. Otherwise, for an id that casts to an \<open>ObjectId\<close>, it throws a \<open>CustomError\<close> with
  status code 500 when the write is not acknowledged and with status code 404 when the
  acknowledged write matched no record, and it returns normally in the remaining case
  only. The controller's \<open>updateStatus\<close> passes a thrown error to \<open>next\<close> and answers 200
  only after a normal return.
\<close>

theorem updateProcessingStatus_raises:
  "(\<not> truthy s \<longrightarrow>
      fst (updateProcessingStatus castObjectId now d id' s)
        = Some (CustomError ''Id and status are required'' 400))
   \<and> (truthy s \<and> castObjectId id' = Some i \<longrightarrow>
      fst (updateProcessingStatus castObjectId now d id' s)
        = (if \<not> acks d then Some (CustomError ''Update failed, try again later'' 500)
           else if i \<notin> oid ` set (docs d) then Some (CustomError ''Product not found'' 404)
           else None))
   \<and> fst (updateStatus castObjectId now d id' s)
        = (case fst (updateProcessingStatus castObjectId now d id' s) of
             None \<Rightarrow> Responded 200 ''success'' NoData ''Processing status updated''
           | Some err \<Rightarrow> NextCalled err)"
proof (intro conjI impI)
  assume "\<not> truthy s"
  then show "fst (updateProcessingStatus castObjectId now d id' s)
        = Some (CustomError ''Id and status are required'' 400)"
    by (simp add: updateProcessingStatus_def new_CustomError_def)
next
  assume "truthy s \<and> castObjectId id' = Some i"
  then show "fst (updateProcessingStatus castObjectId now d id' s)
        = (if \<not> acks d then Some (CustomError ''Update failed, try again later'' 500)
           else if i \<notin> oid ` set (docs d) then Some (CustomError ''Product not found'' 404)
           else None)"
    by (simp add: updateProcessingStatus_result)
next
  show "fst (updateStatus castObjectId now d id' s)
        = (case fst (updateProcessingStatus castObjectId now d id' s) of
             None \<Rightarrow> Responded 200 ''success'' NoData ''Processing status updated''
           | Some err \<Rightarrow> NextCalled err)"
    by (simp add: updateStatus_def split: prod.splits option.splits)
qed

theorem updateProcessingStatus_raises_witness:
  "truthy (Some ''queued'') \<and> hex_objectId id_1 = Some 1 \<and> hex_objectId id_2 = Some 2
   \<and> 1 \<in> oid ` set (docs one_db) \<and> 2 \<notin> oid ` set (docs one_db) \<and> acks one_db
   \<and> fst (updateProcessingStatus hex_objectId 50 one_db id_1 (Some ''queued'')) = None
   \<and> fst (updateStatus hex_objectId 50 one_db id_1 (Some ''queued''))
       = Responded 200 ''success'' NoData ''Processing status updated''
   \<and> \<not> truthy None
   \<and> fst (updateProcessingStatus hex_objectId 50 one_db id_1 None)
       = Some (CustomError ''Id and status are required'' 400)
   \<and> fst (updateStatus hex_objectId 50 one_db id_2 (Some ''queued''))
       = NextCalled (CustomError ''Product not found'' 404)
   \<and> \<not> acks (one_db\<lparr> acks := False \<rparr>)
   \<and> fst (updateProcessingStatus hex_objectId 50 (one_db\<lparr> acks := False \<rparr>) id_2 (Some ''queued''))
       = Some (CustomError ''Update failed, try again later'' 500)"
  using updateProcessingStatus_raises [of "Some ''queued''" hex_objectId 50 one_db id_1 1]
        updateProcessingStatus_raises [of None hex_objectId 50 one_db id_1 1]
        updateProcessingStatus_raises [of "Some ''queued''" hex_objectId 50 one_db id_2 2]
        updateProcessingStatus_raises
          [of "Some ''queued''" hex_objectId 50 "one_db\<lparr> acks := False \<rparr>" id_2 2]
  by (simp add: truthy_def hex_objectId_samples) (simp add: one_db_def listed_product_def)

text \<open>
  Claim C7 as stated fails: a status update for an id that no record has throws a 404
  error to its caller, which the controller hands to \<open>next\<close>.
\<close>

theorem status_update_raises_counterexample:
  "updateProcessingStatus hex_objectId 50 empty_db id_1 (Some ''processing'')
     = (Some (CustomError ''Product not found'' 404), empty_db)
   \<and> updateStatus hex_objectId 50 empty_db id_1 (Some ''processing'')
     = (NextCalled (CustomError ''Product not found'' 404), empty_db)"
  by (simp add: updateStatus_def updateProcessingStatus_id_1
      truthy_def empty_db_def)


section \<open>Creating a product\<close>

text \<open>
  Claim C2, as amended. The product record is the job record itself: it exists from the
  moment \<open>createProduct\<close> succeeds, whatever its status. A successful \<open>createProduct\<close>
  appends exactly one record, which is then returned for every id that casts to its
  \<open>_id\<close>. Its status is \<open>pending\<close> when none was supplied, null when null was supplied,
  and otherwise the supplied one, which is then one of the five values of the schema's
  enum.
\<close>

theorem createProduct_any_status:
  assumes "createProduct castObjectId now d fresh (Some pd) = Inr (p, d')"
  shows "oid p = fresh \<and> docs d' = docs d @ [p]
         \<and> (\<forall>id'. castObjectId id' = Some fresh \<longrightarrow> getProductById castObjectId d' id' = Inr p)
         \<and> processingStatus p
             = (case in_processingStatus pd of
                  Absent \<Rightarrow> Some ''pending'' | Null \<Rightarrow> None | Given s \<Rightarrow> Some s)
         \<and> (\<forall>s. in_processingStatus pd = Given s \<longrightarrow>
                s \<in> {''pending'', ''queued'', ''processing'', ''completed'', ''failed''})"
proof -
  from createProduct_Inr [OF assms]
  have p: "p = new_Product castObjectId now fresh pd" and d': "d' = d\<lparr> docs := docs d @ [p] \<rparr>"
    and fresh: "fresh \<notin> oid ` set (docs d)" and valid: "validation_errors castObjectId pd = {}"
    by simp_all
  have oid: "oid p = fresh" by (simp add: p new_Product_def)
  with fresh
  have "\<forall>id'. castObjectId id' = Some fresh \<longrightarrow> getProductById castObjectId d' id' = Inr p"
    by (simp add: getProductById_def Product_findById_def d' find_append_fresh)
  moreover have "processingStatus p
      = (case in_processingStatus pd of
           Absent \<Rightarrow> Some ''pending'' | Null \<Rightarrow> None | Given s \<Rightarrow> Some s)"
    by (simp add: p new_Product_def status_of_data_def processingStatus_default_def
        split: supplied.splits)
  moreover from valid
  have "\<forall>s. in_processingStatus pd = Given s \<longrightarrow>
          s \<in> {''pending'', ''queued'', ''processing'', ''completed'', ''failed''}"
    by (simp add: validation_errors_empty processingStatus_enum_def)
  ultimately show ?thesis using oid by (simp add: d')
qed

theorem createProduct_any_status_witness:
  "createProduct hex_objectId 30 empty_db 1 (Some minimal_data)
     = Inr (minimal_product, \<lparr> docs = [minimal_product], acks = True \<rparr>)
   \<and> hex_objectId id_1 = Some 1
   \<and> getProductById hex_objectId \<lparr> docs = [minimal_product], acks = True \<rparr> id_1
       = Inr minimal_product
   \<and> in_processingStatus minimal_data = Absent
   \<and> processingStatus minimal_product = Some ''pending''
   \<and> docs \<lparr> docs = [minimal_product], acks = True \<rparr> = docs empty_db @ [minimal_product]"
  using createProduct_any_status [OF createProduct_minimal] createProduct_minimal
  by (simp add: minimal_data_def hex_objectId_samples)

text \<open>
  Claim C2 as stated fails: \<open>createProduct\<close> brings a record into existence whose status
  is \<open>failed\<close>, and the record is found under its id.
\<close>

theorem product_exists_while_failed_counterexample:
  "createProduct hex_objectId 30 empty_db 2
       (Some (minimal_data\<lparr> in_processingStatus := Given ''failed'', in_jobId := Given ''j2'' \<rparr>))
     = Inr (minimal_product\<lparr> oid := 2, processingStatus := Some ''failed'', jobId := ''j2'' \<rparr>,
            \<lparr> docs = [minimal_product\<lparr> oid := 2, processingStatus := Some ''failed'',
                                       jobId := ''j2'' \<rparr>],
              acks = True \<rparr>)
   \<and> getProductById hex_objectId
         \<lparr> docs = [minimal_product\<lparr> oid := 2, processingStatus := Some ''failed'',
                                    jobId := ''j2'' \<rparr>],
           acks = True \<rparr> id_2
     = Inr (minimal_product\<lparr> oid := 2, processingStatus := Some ''failed'', jobId := ''j2'' \<rparr>)"
  by (simp add: createProduct_def Product_save_def validation_errors_def user_invalid_def
      status_invalid_def required_string_missing_def processingStatus_enum_def
      minimal_data_def empty_db_def hex_objectId_samples getProductById_def
      Product_findById_def)
     (simp add: new_Product_def minimal_product_def hex_objectId_samples optional_value_def
        list_value_def status_of_data_def)

text \<open>
  Claim C3, as amended. \<open>createProduct\<close> requires only \<open>user\<close> (an id that casts),
  \<open>s3FileKey\<close>, \<open>cdnUrl\<close> and \<open>jobId\<close> (non-empty strings), a status that is absent, null
  or of the enum, and an unused \<open>_id\<close>: it succeeds exactly when these hold, whatever the
  content fields are. The content fields \<open>title\<close>, \<open>description\<close>, \<open>bulletPoints\<close> and
  \<open>searchTerms\<close> are stored as supplied, an absent list as the empty list; a missing or
  empty content field is not an error.
\<close>

theorem createProduct_content_optional:
  "((\<exists>p d'. createProduct castObjectId now d fresh (Some pd) = Inr (p, d')) \<longleftrightarrow>
      (\<exists>s u. in_user pd = Given s \<and> castObjectId s = Some u)
      \<and> \<not> required_string_missing (in_s3FileKey pd)
      \<and> \<not> required_string_missing (in_cdnUrl pd)
      \<and> \<not> required_string_missing (in_jobId pd)
      \<and> (\<forall>s. in_processingStatus pd = Given s \<longrightarrow> s \<in> set processingStatus_enum)
      \<and> fresh \<notin> oid ` set (docs d))
   \<and> (createProduct castObjectId now d fresh (Some pd) = Inr (q, e) \<longrightarrow>
        title q = (case in_title pd of Given s \<Rightarrow> Some s | _ \<Rightarrow> None)
        \<and> description q = (case in_description pd of Given s \<Rightarrow> Some s | _ \<Rightarrow> None)
        \<and> (in_bulletPoints pd = Absent \<longrightarrow> bulletPoints q = Some [])
        \<and> (\<forall>xs. in_bulletPoints pd = Given xs \<longrightarrow> bulletPoints q = Some xs)
        \<and> (in_searchTerms pd = Absent \<longrightarrow> searchTerms q = Some [])
        \<and> (\<forall>xs. in_searchTerms pd = Given xs \<longrightarrow> searchTerms q = Some xs))"
proof -
  have "createProduct castObjectId now d fresh (Some pd) = Inr (q, e) \<longrightarrow>
        title q = (case in_title pd of Given s \<Rightarrow> Some s | _ \<Rightarrow> None)
        \<and> description q = (case in_description pd of Given s \<Rightarrow> Some s | _ \<Rightarrow> None)
        \<and> (in_bulletPoints pd = Absent \<longrightarrow> bulletPoints q = Some [])
        \<and> (\<forall>xs. in_bulletPoints pd = Given xs \<longrightarrow> bulletPoints q = Some xs)
        \<and> (in_searchTerms pd = Absent \<longrightarrow> searchTerms q = Some [])
        \<and> (\<forall>xs. in_searchTerms pd = Given xs \<longrightarrow> searchTerms q = Some xs)"
    by (auto dest!: createProduct_Inr simp: new_Product_def optional_value_def list_value_def)
  with createProduct_succeeds_iff [of castObjectId now d fresh pd]
  show ?thesis by (simp add: validation_errors_empty)
qed

theorem createProduct_content_optional_witness:
  "(\<exists>p d'. createProduct hex_objectId 30 empty_db 1 (Some minimal_data) = Inr (p, d'))
   \<and> in_user minimal_data = Given id_7 \<and> hex_objectId id_7 = Some 7
   \<and> \<not> required_string_missing (in_s3FileKey minimal_data)
   \<and> \<not> required_string_missing (in_cdnUrl minimal_data)
   \<and> \<not> required_string_missing (in_jobId minimal_data)
   \<and> in_processingStatus minimal_data = Absent \<and> 1 \<notin> oid ` set (docs empty_db)
   \<and> createProduct hex_objectId 30 empty_db 1 (Some minimal_data)
       = Inr (minimal_product, \<lparr> docs = [minimal_product], acks = True \<rparr>)
   \<and> title minimal_product = None \<and> description minimal_product = None
   \<and> bulletPoints minimal_product = Some [] \<and> searchTerms minimal_product = Some []"
  using createProduct_content_optional
          [where castObjectId = hex_objectId and now = 30 and d = empty_db and fresh = 1
             and pd = minimal_data and q = minimal_product
             and e = "\<lparr> docs = [minimal_product], acks = True \<rparr>"]
        createProduct_minimal
  by (simp add: minimal_data_def hex_objectId_samples)

text \<open>
  Claim C3 as stated fails: a product whose status is \<open>completed\<close>, whose title is
  empty, whose description is missing and whose two lists are empty is stored.
\<close>

theorem empty_content_stored_counterexample:
  "createProduct hex_objectId 40 one_db 3
       (Some (minimal_data\<lparr> in_title := Given [], in_bulletPoints := Given [],
                             in_processingStatus := Given ''completed'',
                             in_jobId := Given ''j3'' \<rparr>))
     = Inr (minimal_product\<lparr> oid := 3, title := Some [], processingStatus := Some ''completed'',
                              jobId := ''j3'', createdAt := 40, updatedAt := 40 \<rparr>,
            \<lparr> docs = [listed_product,
                      minimal_product\<lparr> oid := 3, title := Some [],
                                        processingStatus := Some ''completed'', jobId := ''j3'',
                                        createdAt := 40, updatedAt := 40 \<rparr>],
              acks = True \<rparr>)
   \<and> processingStatus
         (minimal_product\<lparr> oid := 3, title := Some [], processingStatus := Some ''completed'',
                            jobId := ''j3'', createdAt := 40, updatedAt := 40 \<rparr>)
       = Some ''completed''
   \<and> title (minimal_product\<lparr> oid := 3, title := Some [], processingStatus := Some ''completed'',
                              jobId := ''j3'', createdAt := 40, updatedAt := 40 \<rparr>) = Some []
   \<and> description
         (minimal_product\<lparr> oid := 3, title := Some [], processingStatus := Some ''completed'',
                            jobId := ''j3'', createdAt := 40, updatedAt := 40 \<rparr>) = None
   \<and> bulletPoints
         (minimal_product\<lparr> oid := 3, title := Some [], processingStatus := Some ''completed'',
                            jobId := ''j3'', createdAt := 40, updatedAt := 40 \<rparr>) = Some []
   \<and> searchTerms
         (minimal_product\<lparr> oid := 3, title := Some [], processingStatus := Some ''completed'',
                            jobId := ''j3'', createdAt := 40, updatedAt := 40 \<rparr>) = Some []"
  by (simp add: createProduct_def Product_save_def validation_errors_def user_invalid_def
      status_invalid_def required_string_missing_def processingStatus_enum_def
      minimal_data_def one_db_def hex_objectId_samples)
     (simp add: new_Product_def minimal_product_def listed_product_def hex_objectId_samples
        optional_value_def list_value_def status_of_data_def)

text \<open>
  Claim C4, as amended. Every record created without an explicit status starts with
  status \<open>pending\<close>, the schema's default: for every input to \<open>createProduct\<close> that omits
  the status and is stored, the stored record's status is \<open>pending\<close>.
\<close>

theorem createProduct_default_pending:
  assumes "in_processingStatus pd = Absent"
    and "createProduct castObjectId now d i (Some pd) = Inr (p, d')"
  shows "processingStatus p = Some ''pending'' \<and> p \<in> set (docs d')"
  using createProduct_Inr [OF assms(2)] assms(1)
  by (simp add: new_Product_def status_of_data_def processingStatus_default_def)

theorem createProduct_default_pending_witness:
  "in_processingStatus minimal_data = Absent
   \<and> createProduct hex_objectId 30 empty_db 1 (Some minimal_data)
       = Inr (minimal_product, \<lparr> docs = [minimal_product], acks = True \<rparr>)
   \<and> processingStatus minimal_product = Some ''pending''
   \<and> minimal_product \<in> set (docs \<lparr> docs = [minimal_product], acks = True \<rparr>)"
proof -
  have a: "in_processingStatus minimal_data = Absent" by (simp add: minimal_data_def)
  show ?thesis
    using createProduct_default_pending [OF a createProduct_minimal] a createProduct_minimal
    by simp
qed

text \<open>
  Claim C4 as stated fails: a record created without an explicit status has status
  \<open>pending\<close>, which is not \<open>processing\<close>.
\<close>

theorem default_status_pending_counterexample:
  "in_processingStatus (minimal_data\<lparr> in_jobId := Given ''j4'' \<rparr>) = Absent
   \<and> createProduct hex_objectId 30 one_db 4 (Some (minimal_data\<lparr> in_jobId := Given ''j4'' \<rparr>))
       = Inr (minimal_product\<lparr> oid := 4, jobId := ''j4'' \<rparr>,
              \<lparr> docs = [listed_product, minimal_product\<lparr> oid := 4, jobId := ''j4'' \<rparr>],
                acks = True \<rparr>)
   \<and> processingStatus (minimal_product\<lparr> oid := 4, jobId := ''j4'' \<rparr>) = Some ''pending''
   \<and> processingStatus (minimal_product\<lparr> oid := 4, jobId := ''j4'' \<rparr>) \<noteq> Some ''processing''"
  by (simp add: createProduct_def Product_save_def validation_errors_def user_invalid_def
      status_invalid_def required_string_missing_def processingStatus_enum_def
      minimal_data_def one_db_def hex_objectId_samples)
     (simp add: new_Product_def minimal_product_def listed_product_def hex_objectId_samples
        optional_value_def list_value_def status_of_data_def processingStatus_default_def)


section \<open>The queries and the delete route\<close>

text \<open>
  Claim C8. For every id that casts to an \<open>ObjectId\<close> the claim holds: when no stored
  record has the id, \<open>getProductById\<close> throws the \<open>CustomError\<close> "Product not found" with
  status code 404, which the controller passes to \<open>next\<close> and the error handler answers
  with code 404 and status \<open>fail\<close>; when a record has it, that record is returned and sent
  with code 200. For an id string that does not cast, which no stored record has either,
  the claim does not hold of the code: the lookup throws a \<open>CastError\<close>, which carries no
  status code, and the error handler answers with code 500, status \<open>error\<close> and its
  catch-all message.
\<close>

theorem getProductById_cast_error:
  "(castObjectId id' = None \<longrightarrow>
      getProductById castObjectId d id' = Inl (CastError id')
      \<and> getProduct castObjectId d id' = NextCalled (CastError id')
      \<and> globalErrorHandler (CastError id')
          = \<lparr> res_code = 500, res_status = ''error'',
              res_message = ''Something went wrong, try again later'' \<rparr>)
   \<and> (castObjectId id' = Some i \<and> i \<notin> oid ` set (docs d) \<longrightarrow>
      getProductById castObjectId d id' = Inl (CustomError ''Product not found'' 404)
      \<and> getProduct castObjectId d id' = NextCalled (CustomError ''Product not found'' 404)
      \<and> globalErrorHandler (CustomError ''Product not found'' 404)
          = \<lparr> res_code = 404, res_status = ''fail'', res_message = ''Product not found'' \<rparr>)
   \<and> (castObjectId id' = Some i \<and> i \<in> oid ` set (docs d) \<longrightarrow>
      (\<exists>p \<in> set (docs d). oid p = i \<and> getProductById castObjectId d id' = Inr p
         \<and> getProduct castObjectId d id'
             = Responded 200 ''success'' (ProductData p) ''Product fetched successfully''))"
proof (intro conjI impI)
  assume "castObjectId id' = Some i \<and> i \<in> oid ` set (docs d)"
  then have c: "castObjectId id' = Some i" and "i \<in> oid ` set (docs d)" by simp_all
  then obtain p where "find (\<lambda>p. oid p = i) (docs d) = Some p"
    using find_oid_None [of i "docs d"] by (cases "find (\<lambda>p. oid p = i) (docs d)") auto
  then show "\<exists>p \<in> set (docs d). oid p = i \<and> getProductById castObjectId d id' = Inr p
         \<and> getProduct castObjectId d id'
             = Responded 200 ''success'' (ProductData p) ''Product fetched successfully''"
    using find_oid_Some [of i "docs d" p] c
    by (auto simp: getProduct_def getProductById_def Product_findById_def)
next
  show "globalErrorHandler (CastError id')
          = \<lparr> res_code = 500, res_status = ''error'',
              res_message = ''Something went wrong, try again later'' \<rparr>"
    by (simp add: globalErrorHandler_def leading_digit.simps)
next
  show "globalErrorHandler (CustomError ''Product not found'' 404)
          = \<lparr> res_code = 404, res_status = ''fail'', res_message = ''Product not found'' \<rparr>"
    by (simp add: globalErrorHandler_def leading_digit.simps)
qed (simp_all add: getProduct_def getProductById_def Product_findById_def
      find_oid_None [THEN iffD2] new_CustomError_def)

theorem getProductById_cast_error_witness:
  "hex_objectId ''abc'' = None
   \<and> getProductById hex_objectId one_db ''abc'' = Inl (CastError ''abc'')
   \<and> getProduct hex_objectId one_db ''abc'' = NextCalled (CastError ''abc'')
   \<and> res_code (globalErrorHandler (CastError ''abc'')) = 500
   \<and> res_status (globalErrorHandler (CastError ''abc'')) = ''error''
   \<and> hex_objectId id_2 = Some 2 \<and> 2 \<notin> oid ` set (docs one_db)
   \<and> getProduct hex_objectId one_db id_2 = NextCalled (CustomError ''Product not found'' 404)
   \<and> hex_objectId id_1 = Some 1 \<and> 1 \<in> oid ` set (docs one_db)
   \<and> getProductById hex_objectId one_db id_1 = Inr listed_product"
proof -
  have a: "2 \<notin> oid ` set (docs one_db)" and b: "1 \<in> oid ` set (docs one_db)"
    by (simp_all add: one_db_def listed_product_def)
  from getProductById_cast_error [of hex_objectId "''abc''" one_db 0]
  have refused: "getProductById hex_objectId one_db ''abc'' = Inl (CastError ''abc'')
      \<and> getProduct hex_objectId one_db ''abc'' = NextCalled (CastError ''abc'')
      \<and> res_code (globalErrorHandler (CastError ''abc'')) = 500
      \<and> res_status (globalErrorHandler (CastError ''abc'')) = ''error''"
    by (simp add: hex_objectId_samples)
  from getProductById_cast_error [of hex_objectId id_2 one_db 2] a
  have absent: "getProduct hex_objectId one_db id_2
      = NextCalled (CustomError ''Product not found'' 404)"
    by (simp add: hex_objectId_samples)
  from getProductById_cast_error [of hex_objectId id_1 one_db 1] b
  obtain p where "p \<in> set (docs one_db)" and "getProductById hex_objectId one_db id_1 = Inr p"
    by (auto simp: hex_objectId_samples)
  moreover from this(1) have "p = listed_product" by (simp add: one_db_def)
  ultimately show ?thesis using a b refused absent by (simp add: hex_objectId_samples)
qed



text \<open>
  Claim C10. Every invocation of the controller's \<open>deleteProduct\<close> handler fails: the
  identifier \<open>productService\<close> is not in scope, so the handler passes a reference error
  to \<open>next\<close>, never calls \<open>ProductService.deleteProduct\<close>, and leaves the collection as
  it was.
\<close>

theorem deleteProduct_handler_always_fails:
  "deleteProduct_handler castObjectId d id'
     = (NextCalled (ReferenceError ''productService is not defined''), ServiceNotCalled, d)"
  by (simp add: deleteProduct_handler_def handler_scope_def)

theorem deleteProduct_handler_always_fails_witness:
  "deleteProduct_handler hex_objectId one_db id_1
     = (NextCalled (ReferenceError ''productService is not defined''), ServiceNotCalled, one_db)
   \<and> fst (deleteProduct hex_objectId one_db id_1) = None
   \<and> docs (snd (deleteProduct hex_objectId one_db id_1)) = []"
  using deleteProduct_handler_always_fails [of hex_objectId one_db id_1]
  by (simp add: deleteProduct_def Product_deleteOne_def hex_objectId_samples)
     (simp add: one_db_def listed_product_def)

end
